theory Spec2Isabelle
  imports Complex_Main "HOL-Library.FSet" "HOL-Library.DAList" "HOL-Library.Word"
    "HOL-Library.Log_Nat"
begin

section \<open>JavaScript values used by the stores\<close>

text \<open>
  The two zustand stores (\<^verbatim>\<open>stores/company.ts\<close>, \<^verbatim>\<open>stores/auditor.ts\<close>) and the
  helpers around them compute with strings, arrays, plain objects used as dictionaries,
  \<^verbatim>\<open>Set<string>\<close> and numbers. Arrays are lists, \<^verbatim>\<open>undefined\<close> and \<^verbatim>\<open>null\<close> are
  both \<^term>\<open>None\<close>; numbers, strings and objects are described below.
\<close>

typedecl File

subsection \<open>Numbers\<close>

text \<open>
  Counts (\<^verbatim>\<open>length\<close>, \<^verbatim>\<open>size\<close>) are natural numbers and the cursor is an integer.
  The percentages are results of \<^verbatim>\<open>(a / b) * 100\<close> on two counts, computed in IEEE 754
  binary64 arithmetic. A number is a finite double, given by its exact rational value, an
  infinity or \<^verbatim>\<open>NaN\<close>. JavaScript's division does not raise: \<^verbatim>\<open>0 / 0\<close> is \<^verbatim>\<open>NaN\<close>
  and \<^verbatim>\<open>a / 0\<close> is \<^verbatim>\<open>Infinity\<close> for positive \<^verbatim>\<open>a\<close>.
\<close>

datatype number = Finite rat | Infinity | MinusInfinity | NaN

text \<open>
  Rounding of an exact result to the nearest double, ties to the even significand:
  \<^term>\<open>binary_exponent q\<close> is the integer \<open>e\<close> with \<open>2^e \<le> q < 2^(e+1)\<close> for positive \<open>q\<close>;
  a double with that exponent is a multiple of \<open>2^(e - 52)\<close>; below \<open>2^-1022\<close> the doubles
  are the multiples of \<open>2^-1074\<close>; a result that rounds to \<open>2^1024\<close> or more is infinite.
\<close>

definition pow2 :: "int \<Rightarrow> rat" where
  "pow2 k = (if 0 \<le> k then 2 ^ nat k else 1 / 2 ^ nat (- k))"

definition binary_exponent :: "rat \<Rightarrow> int" where
  "binary_exponent q =
     (let (a, b) = quotient_of q; d = bitlen a - bitlen b
      in if pow2 d \<le> q then d else d - 1)"

definition round_half_even :: "rat \<Rightarrow> int" where
  "round_half_even x =
     (let f = \<lfloor>x\<rfloor>; r = x - of_int f
      in if r < 1 / 2 then f else if 1 / 2 < r then f + 1
         else if even f then f else f + 1)"

definition round_double :: "rat \<Rightarrow> number" where
  "round_double q =
     (if q = 0 then Finite 0
      else let e = max (binary_exponent \<bar>q\<bar>) (- 1022);
               ulp = pow2 (e - 52);
               m = round_half_even (\<bar>q\<bar> / ulp);
               r = of_int m * ulp
           in if 2 ^ 1024 \<le> r then (if q < 0 then MinusInfinity else Infinity)
              else Finite (if q < 0 then - r else r))"

text \<open>
  \<^verbatim>\<open>a / b\<close> on two counts. A count is the length of an array or the size of a set,
  which is below \<open>2^53\<close> and so is a double itself.
\<close>

definition js_div :: "nat \<Rightarrow> nat \<Rightarrow> number" where
  "js_div a b =
     (if b = 0 then (if a = 0 then NaN else Infinity)
      else round_double (of_nat a / of_nat b))"

text \<open>\<^verbatim>\<open>x * c\<close> for a number \<^verbatim>\<open>x\<close> and a literal \<^verbatim>\<open>c\<close> that is a natural number.\<close>

fun js_mult :: "number \<Rightarrow> nat \<Rightarrow> number" where
  "js_mult (Finite q) c = round_double (q * of_nat c)"
| "js_mult Infinity c = (if c = 0 then NaN else Infinity)"
| "js_mult MinusInfinity c = (if c = 0 then NaN else MinusInfinity)"
| "js_mult NaN c = NaN"

subsection \<open>Strings\<close>

text \<open>
  A JavaScript string is a sequence of UTF-16 code units. The one string whose
  characters the stores inspect is the answer text, which is trimmed; it is modelled as
  the list of its code units. Identifiers and the other texts are only stored and compared
  and stay \<^typ>\<open>string\<close>.
\<close>

type_synonym code_units = "16 word list"

text \<open>
  \<^verbatim>\<open>String.prototype.trim\<close> removes white space and line terminators from both ends:
  the code points TAB, LF, VT, FF, CR, U+FEFF, U+2028, U+2029 and those of the Unicode
  category Zs (U+0020, U+00A0, U+1680, U+2000 to U+200A, U+202F, U+205F, U+3000). All of
  them are single code units.
\<close>

definition isWhiteSpace :: "16 word \<Rightarrow> bool" where
  "isWhiteSpace u \<longleftrightarrow>
     u = 0x0009 \<or> u = 0x000A \<or> u = 0x000B \<or> u = 0x000C \<or> u = 0x000D \<or> u = 0x0020 \<or>
     u = 0x00A0 \<or> u = 0x1680 \<or> (0x2000 \<le> u \<and> u \<le> 0x200A) \<or> u = 0x2028 \<or>
     u = 0x2029 \<or> u = 0x202F \<or> u = 0x205F \<or> u = 0x3000 \<or> u = 0xFEFF"

definition trim :: "code_units \<Rightarrow> code_units" where
  "trim s = rev (dropWhile isWhiteSpace (rev (dropWhile isWhiteSpace s)))"

text \<open>A string is truthy iff it is not empty.\<close>

definition truthy_string :: "code_units \<Rightarrow> bool" where
  "truthy_string s \<longleftrightarrow> s \<noteq> []"

subsection \<open>Arrays\<close>

text \<open>
  \<^verbatim>\<open>xs[i]\<close> on an array and an integer \<^verbatim>\<open>i\<close>: the element at position \<^verbatim>\<open>i\<close>, and
  \<^verbatim>\<open>undefined\<close> when there is no such position (nothing is raised).
\<close>

fun array_get :: "'a list \<Rightarrow> int \<Rightarrow> 'a option" where
  "array_get [] i = None"
| "array_get (x # xs) i =
     (if i = 0 then Some x else if i < 0 then None else array_get xs (i - 1))"

text \<open>
  \<^verbatim>\<open>v || null\<close> where \<^verbatim>\<open>v\<close> is an object, a function or \<^verbatim>\<open>undefined\<close>: objects
  and functions are truthy and are returned, \<^verbatim>\<open>undefined\<close> becomes \<^verbatim>\<open>null\<close>.
\<close>

definition or_null :: "'a option \<Rightarrow> 'a option" where
  "or_null v = (case v of Some x \<Rightarrow> Some x | None \<Rightarrow> None)"

subsection \<open>Objects as dictionaries, sets\<close>

text \<open>
  A \<^verbatim>\<open>Record<string, T>\<close> is a list of key/value pairs with pairwise distinct keys: the
  own properties of the object. \<^verbatim>\<open>{...r, [k]: v}\<close> is \<^const>\<open>DAList.update\<close> (the value
  of an existing key is replaced in place, a new key is appended) and \<^verbatim>\<open>{}\<close> is
  \<^const>\<open>DAList.empty\<close>. The stores only count the entries of such objects, so the order
  in which JavaScript enumerates the keys does not matter.
  A \<^verbatim>\<open>Set<string>\<close> is a finite set: \<^verbatim>\<open>add\<close> is \<^const>\<open>finsert\<close>,
  \<^verbatim>\<open>delete\<close> removes the element, \<^verbatim>\<open>size\<close> is \<^const>\<open>fcard\<close>.
\<close>

type_synonym 'v Record = "(string, 'v) alist"

definition Object_keys :: "'v Record \<Rightarrow> string list" where
  "Object_keys r = map fst (DAList.impl_of r)"

definition Object_values :: "'v Record \<Rightarrow> 'v list" where
  "Object_values r = map snd (DAList.impl_of r)"

text \<open>
  A property read \<^verbatim>\<open>r[k]\<close> finds an own property first and then follows the prototype
  chain. The objects of the stores are made by object literals, so their prototype is
  \<^verbatim>\<open>Object.prototype\<close>, whose members are listed here. The read gives the own value,
  or the inherited member (a function, or \<^verbatim>\<open>Object.prototype\<close> itself for
  \<^verbatim>\<open>__proto__\<close>), or \<^verbatim>\<open>undefined\<close>.
\<close>

definition Object_prototype_members :: "string list" where
  "Object_prototype_members =
     [''constructor'', ''__proto__'', ''hasOwnProperty'', ''isPrototypeOf'',
      ''propertyIsEnumerable'', ''toLocaleString'', ''toString'', ''valueOf'',
      ''__defineGetter__'', ''__defineSetter__'', ''__lookupGetter__'',
      ''__lookupSetter__'']"

datatype 'v property = Own 'v | Inherited string

definition get_property :: "'v Record \<Rightarrow> string \<Rightarrow> 'v property option" where
  "get_property r k =
     (case DAList.lookup r k of
        Some v \<Rightarrow> Some (Own v)
      | None \<Rightarrow> if k \<in> set Object_prototype_members then Some (Inherited k) else None)"

section \<open>Data model\<close>

text \<open>
  Modelled from the spec: the \<^verbatim>\<open>Question\<close> interface (\<^verbatim>\<open>types/question.ts\<close>) is not
  among the sources. Its fields are those of the spec's data model ("identifier, question
  text, target audience tags, a free-text compliance-framework reference, a category tag,
  and a list of related provision identifiers"), named as in the \<^verbatim>\<open>MOCK_QUESTIONS\<close>
  literals.
\<close>

record Question =
  id :: string
  question :: string
  audience :: "string list"
  cyberessentials_requirement :: string
  group_tag :: string
  provisions :: "string list"

record Provision =
  id :: string
  section_ :: string
  subsection_ :: string
  clause :: string
  subclause :: string
  provision :: string
  keywords_ :: "string list option"
  questions :: "string list option"

text \<open>
  Modelled from the spec: the \<^verbatim>\<open>Answer\<close> interface (\<^verbatim>\<open>types/answer.ts\<close>) is not among
  the sources either: "question identifier, free-text response, optional attached files,
  submission timestamp, owning company identifier".
\<close>

record Answer =
  questionId :: string
  answer :: string
  files :: "File list option"
  submittedAt :: string
  companyId :: string

record Organization =
  id :: string
  organisation_name :: string
  acra_number_uen :: "string option"
  annual_turnover :: "int option"
  number_of_employees :: "int option"
  date_of_self_assessment :: "string option"
  scope_of_certification :: "string option"
  created_at :: string
  updated_at :: string

datatype CompanyStatus = Active | Completed | PendingStatus

record Company = Organization +
  name :: string
  registrationDate :: string
  status :: CompanyStatus
  contactEmail :: "string option"
  contactPerson :: "string option"

datatype EvaluationResult = Pass | Fail | Pending

record Evaluation =
  questionId :: string
  answer :: string
  result :: EvaluationResult
  reason :: "string option"
  auditorNotes :: "string option"
  evaluatedBy :: "string option"
  evaluatedAt :: "string option"

record QuestionEvaluation =
  question :: Question
  answer :: Answer
  evaluation :: Evaluation

datatype ProvisionResult = ProvisionPass | ProvisionFail | Partial

record ProvisionEvaluation =
  provisionId :: string
  provision :: Provision
  questions :: "QuestionEvaluation list"
  overallResult :: ProvisionResult
  passPercentage :: number

section \<open>The questionnaire store (\<^verbatim>\<open>stores/company.ts\<close>)\<close>

record AnswerEntry =
  answer :: code_units
  files :: "File list option"

record CompanyState =
  currentCompany :: "Company option"
  questions :: "Question list"
  answers :: "AnswerEntry Record"
  currentQuestionIndex :: int
  isSubmitted :: bool
  completedQuestions :: "string fset"

definition initialCompanyState :: CompanyState where
  "initialCompanyState =
     \<lparr>currentCompany = None,
      CompanyState.questions = [],
      CompanyState.answers = DAList.empty,
      currentQuestionIndex = 0,
      isSubmitted = False,
      completedQuestions = {||}\<rparr>"

subsection \<open>Actions\<close>

definition setCurrentCompany :: "Company option \<Rightarrow> CompanyState \<Rightarrow> CompanyState" where
  "setCurrentCompany company s = s\<lparr>currentCompany := company\<rparr>"

definition setQuestions :: "Question list \<Rightarrow> CompanyState \<Rightarrow> CompanyState" where
  "setQuestions qs s = s\<lparr>CompanyState.questions := qs, currentQuestionIndex := 0\<rparr>"

definition setAnswer ::
  "string \<Rightarrow> code_units \<Rightarrow> File list option \<Rightarrow> CompanyState \<Rightarrow> CompanyState" where
  "setAnswer qid a fs s =
     (let newAnswers =
            DAList.update qid
              \<lparr>AnswerEntry.answer = a,
               AnswerEntry.files = Some (case fs of None \<Rightarrow> [] | Some l \<Rightarrow> l)\<rparr>
              (CompanyState.answers s);
          newCompletedQuestions =
            (if truthy_string (trim a) then finsert qid (completedQuestions s)
             else completedQuestions s |-| {|qid|})
      in s\<lparr>CompanyState.answers := newAnswers,
            completedQuestions := newCompletedQuestions\<rparr>)"

definition setCurrentQuestionIndex :: "int \<Rightarrow> CompanyState \<Rightarrow> CompanyState" where
  "setCurrentQuestionIndex i s = s\<lparr>currentQuestionIndex := i\<rparr>"

definition markQuestionCompleted :: "string \<Rightarrow> CompanyState \<Rightarrow> CompanyState" where
  "markQuestionCompleted qid s =
     s\<lparr>completedQuestions := finsert qid (completedQuestions s)\<rparr>"

definition submitAnswers :: "CompanyState \<Rightarrow> CompanyState" where
  "submitAnswers s = s\<lparr>isSubmitted := True\<rparr>"

definition resetQuestionnaire :: "CompanyState \<Rightarrow> CompanyState" where
  "resetQuestionnaire s =
     s\<lparr>CompanyState.answers := DAList.empty,
       currentQuestionIndex := 0,
       isSubmitted := False,
       completedQuestions := {||}\<rparr>"

subsection \<open>Computed values\<close>

definition getProgress :: "CompanyState \<Rightarrow> number" where
  "getProgress s =
     (if length (CompanyState.questions s) = 0 then Finite 0
      else js_mult (js_div (fcard (completedQuestions s))
                           (length (CompanyState.questions s))) 100)"

definition getCurrentQuestion :: "CompanyState \<Rightarrow> Question option" where
  "getCurrentQuestion s =
     or_null (array_get (CompanyState.questions s) (currentQuestionIndex s))"

definition isQuestionCompleted :: "CompanyState \<Rightarrow> string \<Rightarrow> bool" where
  "isQuestionCompleted s qid \<longleftrightarrow> qid |\<in>| completedQuestions s"

definition canSubmit :: "CompanyState \<Rightarrow> bool" where
  "canSubmit s \<longleftrightarrow>
     length (CompanyState.questions s) > 0 \<and>
     fcard (completedQuestions s) = length (CompanyState.questions s)"

subsection \<open>The questionnaire page's cursor move (\<^verbatim>\<open>app/company/questionnaire/page.tsx\<close>)\<close>

definition navigateToQuestion :: "int \<Rightarrow> CompanyState \<Rightarrow> CompanyState" where
  "navigateToQuestion i s =
     (if i \<ge> 0 \<and> i < int (length (CompanyState.questions s))
      then setCurrentQuestionIndex i s else s)"

subsection \<open>Sequences of store calls\<close>

text \<open>
  A run of \<^verbatim>\<open>setAnswer\<close> calls, one per triple of question id, answer text and optional
  files, made in the order of the list.
\<close>

definition answerEach ::
  "(string \<times> code_units \<times> File list option) list \<Rightarrow> CompanyState \<Rightarrow> CompanyState" where
  "answerEach calls s = fold (\<lambda>(qid, a, fs). setAnswer qid a fs) calls s"

text \<open>Every action of the store, and a session as a list of actions applied in order.\<close>

datatype CompanyAction =
    SetCurrentCompany "Company option"
  | SetQuestions "Question list"
  | SetAnswer string code_units "File list option"
  | SetCurrentQuestionIndex int
  | MarkQuestionCompleted string
  | SubmitAnswers
  | ResetQuestionnaire

fun dispatch :: "CompanyAction \<Rightarrow> CompanyState \<Rightarrow> CompanyState" where
  "dispatch (SetCurrentCompany c) s = setCurrentCompany c s"
| "dispatch (SetQuestions qs) s = setQuestions qs s"
| "dispatch (SetAnswer qid a fs) s = setAnswer qid a fs s"
| "dispatch (SetCurrentQuestionIndex i) s = setCurrentQuestionIndex i s"
| "dispatch (MarkQuestionCompleted qid) s = markQuestionCompleted qid s"
| "dispatch SubmitAnswers s = submitAnswers s"
| "dispatch ResetQuestionnaire s = resetQuestionnaire s"

definition run :: "CompanyAction list \<Rightarrow> CompanyState \<Rightarrow> CompanyState" where
  "run acts s = fold dispatch acts s"

subsection \<open>Sample inputs\<close>

definition sampleQuestion :: "string \<Rightarrow> string \<Rightarrow> Question" where
  "sampleQuestion i txt =
     \<lparr>Question.id = i,
      Question.question = txt,
      audience = [''Owner''],
      cyberessentials_requirement = ''Asset inventory'',
      group_tag = ''CONTEXT'',
      Question.provisions = [''A.8.4(a)'']\<rparr>"

definition Q1 :: Question where
  "Q1 = sampleQuestion ''1'' ''Who are your primary customers?''"

definition Q2 :: Question where
  "Q2 = sampleQuestion ''2'' ''Any asset inventory list?''"

definition Q1_again :: Question where
  "Q1_again = sampleQuestion ''1'' ''Is it B2B or B2C?''"

text \<open>The answer texts "yes", "no", "n" and a single space.\<close>

definition text_yes :: code_units where
  "text_yes = [0x0079, 0x0065, 0x0073]"

definition text_no :: code_units where
  "text_no = [0x006E, 0x006F]"

definition text_n :: code_units where
  "text_n = [0x006E]"

definition text_space :: code_units where
  "text_space = [0x0020]"

definition answeredQ1 :: CompanyState where
  "answeredQ1 = setAnswer ''1'' text_yes None (setQuestions [Q1] initialCompanyState)"

definition blankAnswered :: CompanyState where
  "blankAnswered = setAnswer ''2'' text_space None answeredQ1"

definition sampleSession :: "CompanyAction list" where
  "sampleSession =
     [SetQuestions [Q1, Q2], SetAnswer ''1'' [] None, SetCurrentQuestionIndex 3,
      MarkQuestionCompleted ''9'', SetCurrentCompany None, SubmitAnswers]"

section \<open>The auditor store (\<^verbatim>\<open>stores/auditor.ts\<close>)\<close>

record AuditorState =
  companies :: "Company list"
  selectedCompany :: "Company option"
  questions :: "Question list"
  provisions :: "Provision list"
  answers :: "Answer list"
  evaluations :: "Evaluation Record"
  provisionEvaluations :: "ProvisionEvaluation Record"
  currentProvisionId :: "string option"
  loading :: bool
  error :: "string option"

definition initialAuditorState :: AuditorState where
  "initialAuditorState =
     \<lparr>companies = [],
      selectedCompany = None,
      AuditorState.questions = [],
      AuditorState.provisions = [],
      AuditorState.answers = [],
      evaluations = DAList.empty,
      provisionEvaluations = DAList.empty,
      currentProvisionId = None,
      loading = False,
      error = None\<rparr>"

subsection \<open>Actions\<close>

definition setCompanies :: "Company list \<Rightarrow> AuditorState \<Rightarrow> AuditorState" where
  "setCompanies cs s = s\<lparr>companies := cs\<rparr>"

definition setSelectedCompany :: "Company option \<Rightarrow> AuditorState \<Rightarrow> AuditorState" where
  "setSelectedCompany company s =
     s\<lparr>selectedCompany := company,
       evaluations := DAList.empty,
       provisionEvaluations := DAList.empty,
       currentProvisionId := None\<rparr>"

definition auditor_setQuestions :: "Question list \<Rightarrow> AuditorState \<Rightarrow> AuditorState" where
  "auditor_setQuestions qs s = s\<lparr>AuditorState.questions := qs\<rparr>"

definition setProvisions :: "Provision list \<Rightarrow> AuditorState \<Rightarrow> AuditorState" where
  "setProvisions ps s = s\<lparr>AuditorState.provisions := ps\<rparr>"

definition setAnswers :: "Answer list \<Rightarrow> AuditorState \<Rightarrow> AuditorState" where
  "setAnswers as s = s\<lparr>AuditorState.answers := as\<rparr>"

definition setCurrentProvisionId :: "string option \<Rightarrow> AuditorState \<Rightarrow> AuditorState" where
  "setCurrentProvisionId pid s = s\<lparr>currentProvisionId := pid\<rparr>"

definition setEvaluation :: "string \<Rightarrow> Evaluation \<Rightarrow> AuditorState \<Rightarrow> AuditorState" where
  "setEvaluation qid ev s = s\<lparr>evaluations := DAList.update qid ev (evaluations s)\<rparr>"

definition setProvisionEvaluation ::
  "string \<Rightarrow> ProvisionEvaluation \<Rightarrow> AuditorState \<Rightarrow> AuditorState" where
  "setProvisionEvaluation pid ev s =
     s\<lparr>provisionEvaluations := DAList.update pid ev (provisionEvaluations s)\<rparr>"

definition clearEvaluations :: "AuditorState \<Rightarrow> AuditorState" where
  "clearEvaluations s =
     s\<lparr>evaluations := DAList.empty,
       provisionEvaluations := DAList.empty,
       currentProvisionId := None\<rparr>"

subsection \<open>Computed values\<close>

definition getAnswersForCompany :: "AuditorState \<Rightarrow> string \<Rightarrow> Answer list" where
  "getAnswersForCompany s cid = filter (\<lambda>a. Answer.companyId a = cid) (AuditorState.answers s)"

definition getEvaluationForQuestion ::
  "AuditorState \<Rightarrow> string \<Rightarrow> Evaluation property option" where
  "getEvaluationForQuestion s qid = or_null (get_property (evaluations s) qid)"

definition getProvisionEvaluation ::
  "AuditorState \<Rightarrow> string \<Rightarrow> ProvisionEvaluation property option" where
  "getProvisionEvaluation s pid = or_null (get_property (provisionEvaluations s) pid)"

subsection \<open>The evaluation page's statistics (\<^verbatim>\<open>getEvaluationStats\<close>)\<close>

text \<open>
  \<^verbatim>\<open>getEvaluationStats\<close> is a closure of the company evaluation page over the
  \<^verbatim>\<open>questions\<close> and \<^verbatim>\<open>evaluations\<close> of the auditor store. \<^verbatim>\<open>pending\<close> is a
  difference of two counts, which JavaScript does not truncate at zero: it is an integer.
\<close>

record EvaluationStats =
  total :: nat
  evaluated :: nat
  passed :: nat
  failed :: nat
  pending :: int
  completionPercentage :: number
  passPercentage :: number

definition getEvaluationStats :: "AuditorState \<Rightarrow> EvaluationStats" where
  "getEvaluationStats s =
     (let totalQuestions = length (AuditorState.questions s);
          evaluatedQuestions = length (Object_keys (evaluations s));
          passedQuestions =
            length (filter (\<lambda>e. result e = Pass) (Object_values (evaluations s)));
          failedQuestions =
            length (filter (\<lambda>e. result e = Fail) (Object_values (evaluations s)))
      in \<lparr>total = totalQuestions,
          evaluated = evaluatedQuestions,
          passed = passedQuestions,
          failed = failedQuestions,
          pending = int totalQuestions - int evaluatedQuestions,
          completionPercentage =
            (if totalQuestions > 0 then js_mult (js_div evaluatedQuestions totalQuestions) 100
             else Finite 0),
          EvaluationStats.passPercentage =
            (if evaluatedQuestions > 0
             then js_mult (js_div passedQuestions evaluatedQuestions) 100
             else Finite 0)\<rparr>)"

subsection \<open>Sample inputs\<close>

definition sampleEvaluation :: "string \<Rightarrow> EvaluationResult \<Rightarrow> Evaluation" where
  "sampleEvaluation qid r =
     \<lparr>Evaluation.questionId = qid,
      Evaluation.answer = ''yes'',
      result = r,
      reason = None,
      auditorNotes = None,
      evaluatedBy = Some ''Current Auditor'',
      evaluatedAt = Some ''2024-01-15T10:30:00Z''\<rparr>"

definition reviewedQ1Q2 :: AuditorState where
  "reviewedQ1Q2 =
     setEvaluation ''2'' (sampleEvaluation ''2'' Fail)
       (setEvaluation ''1'' (sampleEvaluation ''1'' Pass)
          (auditor_setQuestions [Q1, Q2] (setSelectedCompany None initialAuditorState)))"

definition reviewedOneOfThree :: AuditorState where
  "reviewedOneOfThree =
     setEvaluation ''3'' (sampleEvaluation ''3'' Fail)
       (setEvaluation ''2'' (sampleEvaluation ''2'' Fail)
          (setEvaluation ''1'' (sampleEvaluation ''1'' Pass)
             (auditor_setQuestions [Q1, Q2] (setSelectedCompany None initialAuditorState))))"

section \<open>The organizations API (\<^verbatim>\<open>services/api/organizations.ts\<close>)\<close>

subsection \<open>Pagination helper (\<^verbatim>\<open>applyPagination\<close>)\<close>

text \<open>
  \<^verbatim>\<open>limit\<close> and \<^verbatim>\<open>offset\<close> are optional numbers; integers are modelled, negative ones
  included. A number is truthy iff it is not zero. \<^verbatim>\<open>options?.limit\<close> is
  \<^verbatim>\<open>undefined\<close> when \<^verbatim>\<open>options\<close> is.
\<close>

record ApiOptions =
  limit :: "int option"
  offset :: "int option"

definition options_limit :: "ApiOptions option \<Rightarrow> int option" where
  "options_limit options = (case options of None \<Rightarrow> None | Some opts \<Rightarrow> limit opts)"

definition options_offset :: "ApiOptions option \<Rightarrow> int option" where
  "options_offset options = (case options of None \<Rightarrow> None | Some opts \<Rightarrow> offset opts)"

definition truthy_number :: "int \<Rightarrow> bool" where
  "truthy_number k \<longleftrightarrow> k \<noteq> 0"

text \<open>
  \<^verbatim>\<open>Array.prototype.slice(start, end)\<close>: a negative index counts from the end of the
  array, every index is clamped to the array, an absent \<^verbatim>\<open>end\<close> is the length.
\<close>

definition slice_index :: "int \<Rightarrow> int \<Rightarrow> int" where
  "slice_index len k = (if k < 0 then max (len + k) 0 else min k len)"

definition slice :: "'a list \<Rightarrow> int \<Rightarrow> int option \<Rightarrow> 'a list" where
  "slice xs start fin =
     (let len = int (length xs);
          k = slice_index len start;
          final = (case fin of None \<Rightarrow> len | Some e \<Rightarrow> slice_index len e)
      in take (nat (final - k)) (drop (nat k) xs))"

definition applyPagination :: "'a list \<Rightarrow> ApiOptions option \<Rightarrow> 'a list" where
  "applyPagination items options =
     (let result = items;
          result =
            (case options_offset options of
               None \<Rightarrow> result
             | Some off \<Rightarrow>
                 if truthy_number off \<and> off < int (length result)
                 then slice result off None else result);
          result =
            (case options_limit options of
               None \<Rightarrow> result
             | Some lmt \<Rightarrow>
                 if truthy_number lmt then slice result 0 (Some lmt) else result)
      in result)"

text \<open>
  Pagination in the spec's words, for comparison with \<^const>\<open>applyPagination\<close>: the list
  "paginated per the supplied limit/offset", "the offset applied first and then the limit".
  Applying an offset skips that many items, applying a limit keeps at most that many; an
  option that is not supplied does nothing.
\<close>

definition spec_paginate :: "'a list \<Rightarrow> ApiOptions option \<Rightarrow> 'a list" where
  "spec_paginate items options =
     (let skipped = (case options_offset options of None \<Rightarrow> items
                     | Some off \<Rightarrow> drop (nat off) items)
      in case options_limit options of None \<Rightarrow> skipped
         | Some lmt \<Rightarrow> take (nat lmt) skipped)"

subsection \<open>Fallback data (\<^verbatim>\<open>mocks/organizations.ts\<close>)\<close>

definition MOCK_ORGANIZATIONS :: "Organization list" where
  "MOCK_ORGANIZATIONS =
     [\<lparr>Organization.id = ''1'',
       organisation_name = ''Tech Solutions Pte Ltd'',
       acra_number_uen = Some ''201234567H'',
       annual_turnover = Some 5000000,
       number_of_employees = Some 150,
       date_of_self_assessment = Some ''2024-01-15'',
       scope_of_certification = Some ''IT services and software development'',
       created_at = ''2024-01-01T00:00:00Z'',
       updated_at = ''2024-01-15T10:30:00Z''\<rparr>,
      \<lparr>Organization.id = ''2'',
       organisation_name = ''Singapore Manufacturing Co.'',
       acra_number_uen = Some ''199876543B'',
       annual_turnover = Some 12000000,
       number_of_employees = Some 350,
       date_of_self_assessment = Some ''2024-02-20'',
       scope_of_certification = Some ''Manufacturing operations and quality control systems'',
       created_at = ''2023-12-10T09:15:00Z'',
       updated_at = ''2024-02-20T14:20:00Z''\<rparr>,
      \<lparr>Organization.id = ''3'',
       organisation_name = ''Digital Marketing Hub'',
       acra_number_uen = Some ''202445678C'',
       annual_turnover = Some 2500000,
       number_of_employees = Some 75,
       date_of_self_assessment = Some ''2024-03-10'',
       scope_of_certification =
         Some ''Digital marketing services and customer data management'',
       created_at = ''2024-01-20T11:30:00Z'',
       updated_at = ''2024-03-10T16:45:00Z''\<rparr>,
      \<lparr>Organization.id = ''4'',
       organisation_name = ''Healthcare Systems Ltd'',
       acra_number_uen = Some ''200567890D'',
       annual_turnover = Some 8000000,
       number_of_employees = Some 200,
       date_of_self_assessment = Some ''2024-01-30'',
       scope_of_certification =
         Some ''Healthcare information systems and patient data management'',
       created_at = ''2023-11-15T08:00:00Z'',
       updated_at = ''2024-01-30T12:00:00Z''\<rparr>,
      \<lparr>Organization.id = ''5'',
       organisation_name = ''Small Business Consultancy'',
       acra_number_uen = Some ''202112345E'',
       annual_turnover = Some 800000,
       number_of_employees = Some 25,
       date_of_self_assessment = Some ''2024-02-28'',
       scope_of_certification =
         Some ''Business consultancy and financial advisory services'',
       created_at = ''2024-02-01T10:00:00Z'',
       updated_at = ''2024-02-28T17:30:00Z''\<rparr>]"

subsection \<open>\<^verbatim>\<open>organizationsApi.getAll\<close>\<close>

text \<open>
  The axios instance (\<^verbatim>\<open>base.ts\<close>) is not among the sources: the outcome of the one
  request \<^verbatim>\<open>api.get(...)\<close> that \<^verbatim>\<open>getAll\<close> awaits is a parameter, \<^term>\<open>Inl e\<close> when
  the request throws and \<^term>\<open>Inr d\<close> when it answers with \<^verbatim>\<open>response.data = d\<close>.
  Nothing else in the \<^verbatim>\<open>try\<close> block throws.
\<close>

datatype ApiError = NetworkError

definition getAll ::
  "'e + Organization list \<Rightarrow> ApiOptions option \<Rightarrow> Organization list" where
  "getAll response options =
     (case response of
        Inr d \<Rightarrow> d
      | Inl e \<Rightarrow> applyPagination MOCK_ORGANIZATIONS options)"

section \<open>Properties of the questionnaire store\<close>

lemmas store_defs =
  setCurrentCompany_def setQuestions_def setAnswer_def setCurrentQuestionIndex_def
  markQuestionCompleted_def submitAnswers_def resetQuestionnaire_def
  initialCompanyState_def getProgress_def canSubmit_def isQuestionCompleted_def

lemmas sample_defs =
  Q1_def Q2_def Q1_again_def sampleQuestion_def answeredQ1_def blankAnswered_def

lemmas string_defs =
  trim_def isWhiteSpace_def truthy_string_def text_yes_def text_no_def text_n_def
  text_space_def

lemmas fcard_eval = fcard_finsert_if fcard_fempty

subsection \<open>Rounding at the values the stores compute\<close>

lemma round_double_1: "round_double 1 = Finite 1"
  by code_simp

lemma round_double_100: "round_double 100 = Finite 100"
  by code_simp

lemma round_double_half: "round_double (1 / 2) = Finite (1 / 2)"
  by code_simp

lemma round_double_50: "round_double 50 = Finite 50"
  by code_simp

lemma round_double_third:
  "round_double (1 / 3) = Finite (6004799503160661 / 18014398509481984)"
  by code_simp

lemma round_double_third_100:
  "round_double (150119987579016525 / 4503599627370496)
     = Finite (2345624805922133 / 70368744177664)"
  by code_simp

lemmas percent_eval =
  js_div_def round_double_1 round_double_100 round_double_half round_double_50
  round_double_third round_double_third_100

lemma round_double_not_NaN: "round_double q \<noteq> NaN"
  by (simp add: round_double_def Let_def)

lemma js_div_not_NaN: "b \<noteq> 0 \<Longrightarrow> js_div a b \<noteq> NaN"
  by (simp add: js_div_def round_double_not_NaN)

lemma js_mult_not_NaN: "x \<noteq> NaN \<Longrightarrow> c \<noteq> 0 \<Longrightarrow> js_mult x c \<noteq> NaN"
  by (cases x) (simp_all add: round_double_not_NaN)

lemma percent_of_all: "n \<noteq> 0 \<Longrightarrow> js_mult (js_div n n) 100 = Finite 100"
  by (simp add: js_div_def round_double_1 round_double_100)


subsection \<open>Cursor\<close>

lemma array_get_nth:
  "array_get xs i = (if 0 \<le> i \<and> i < int (length xs) then Some (xs ! nat i) else None)"
proof (induction xs arbitrary: i)
  case Nil
  show ?case by simp
next
  case (Cons x xs)
  show ?case
  proof (cases "i \<le> 0")
    case True
    then show ?thesis by auto
  next
    case False
    then have "nat i = Suc (nat (i - 1))" by simp
    with False Cons.IH [of "i - 1"] show ?thesis by auto
  qed
qed

text \<open>
  C10. \<^verbatim>\<open>getCurrentQuestion()\<close> is total: it is the question at the cursor when
  \<open>0 \<le> currentQuestionIndex < questions.length\<close>, and \<^verbatim>\<open>null\<close> otherwise, which covers the
  empty question list and every out-of-range cursor.
\<close>

theorem getCurrentQuestion_total:
  "getCurrentQuestion s =
     (if 0 \<le> currentQuestionIndex s \<and>
         currentQuestionIndex s < int (length (CompanyState.questions s))
      then Some (CompanyState.questions s ! nat (currentQuestionIndex s))
      else None)"
  by (simp add: getCurrentQuestion_def or_null_def array_get_nth)

text \<open>
  The three cases on concrete stores: a cursor on the second of two questions, a negative
  cursor, and the initial store, whose question list is empty.
\<close>

theorem getCurrentQuestion_total_witness:
  "getCurrentQuestion (setCurrentQuestionIndex 1 (setQuestions [Q1, Q2] initialCompanyState))
     = Some Q2 \<and>
   getCurrentQuestion (setCurrentQuestionIndex (- 1) (setQuestions [Q1, Q2] initialCompanyState))
     = None \<and>
   getCurrentQuestion initialCompanyState = None"
  using getCurrentQuestion_total
          [of "setCurrentQuestionIndex 1 (setQuestions [Q1, Q2] initialCompanyState)"]
        getCurrentQuestion_total
          [of "setCurrentQuestionIndex (- 1) (setQuestions [Q1, Q2] initialCompanyState)"]
        getCurrentQuestion_total [of initialCompanyState]
  by (simp add: store_defs)

text \<open>
  C6. Moving the cursor to an out-of-range index is a no-op when the move is made through
  the questionnaire page's \<^verbatim>\<open>navigateToQuestion\<close>, which carries the range check: for
  every store state and every index that is negative or not less than the number of loaded
  questions, the state is unchanged. (The range check is not in the store:
  \<^verbatim>\<open>setCurrentQuestionIndex\<close> stores whatever index it is given.)
\<close>

theorem navigateToQuestion_out_of_range:
  "i < 0 \<or> i \<ge> int (length (CompanyState.questions s)) \<Longrightarrow> navigateToQuestion i s = s"
  by (auto simp: navigateToQuestion_def)

text \<open>On a store with one question, index -1 and index 1 are both out of range.\<close>

theorem navigateToQuestion_out_of_range_witness:
  "((- 1 :: int) < 0 \<or> (- 1 :: int) \<ge> int (length (CompanyState.questions answeredQ1))) \<and>
   navigateToQuestion (- 1) answeredQ1 = answeredQ1 \<and>
   ((1 :: int) < 0 \<or> (1 :: int) \<ge> int (length (CompanyState.questions answeredQ1))) \<and>
   navigateToQuestion 1 answeredQ1 = answeredQ1"
proof -
  have a: "(- 1 :: int) < 0 \<or> (- 1 :: int) \<ge> int (length (CompanyState.questions answeredQ1))"
    by simp
  have b: "(1 :: int) < 0 \<or> (1 :: int) \<ge> int (length (CompanyState.questions answeredQ1))"
    by (simp add: store_defs sample_defs)
  show ?thesis
    using a b navigateToQuestion_out_of_range [OF a] navigateToQuestion_out_of_range [OF b]
    by simp
qed

text \<open>
  The store's own action moves the cursor to an out-of-range index: on the initial store,
  which has no questions, \<^verbatim>\<open>setCurrentQuestionIndex(-1)\<close> changes the state.
\<close>

theorem setCurrentQuestionIndex_unguarded:
  "(- 1 :: int) < 0 \<and>
   currentQuestionIndex initialCompanyState = 0 \<and>
   currentQuestionIndex (setCurrentQuestionIndex (- 1) initialCompanyState) = - 1 \<and>
   setCurrentQuestionIndex (- 1) initialCompanyState \<noteq> initialCompanyState"
  by (simp add: store_defs)

subsection \<open>Loading questions\<close>

text \<open>
  C8. \<^verbatim>\<open>setQuestions(qs)\<close> sets the question list to \<^verbatim>\<open>qs\<close> and the cursor to 0 and
  changes nothing else: the answers map, the completed-questions set, the submitted flag
  (and the current company) are those of the prior state, whatever it was. A completion
  mark is therefore kept for every id, also for ids that are not in the new list.
\<close>

theorem setQuestions_frame:
  "CompanyState.questions (setQuestions qs s) = qs \<and>
   currentQuestionIndex (setQuestions qs s) = 0 \<and>
   CompanyState.answers (setQuestions qs s) = CompanyState.answers s \<and>
   completedQuestions (setQuestions qs s) = completedQuestions s \<and>
   isSubmitted (setQuestions qs s) = isSubmitted s \<and>
   currentCompany (setQuestions qs s) = currentCompany s \<and>
   isQuestionCompleted (setQuestions qs s) qid = isQuestionCompleted s qid"
  by (simp add: setQuestions_def isQuestionCompleted_def)

text \<open>
  A store that holds question 1 with a completed answer, submitted and with the cursor at
  5, then loaded with question 2 only: the mark of question 1 and the flag persist.
\<close>

theorem setQuestions_frame_witness:
  "CompanyState.questions
     (setQuestions [Q2] (setCurrentQuestionIndex 5 (submitAnswers answeredQ1))) = [Q2] \<and>
   currentQuestionIndex
     (setQuestions [Q2] (setCurrentQuestionIndex 5 (submitAnswers answeredQ1))) = 0 \<and>
   isSubmitted (setQuestions [Q2] (setCurrentQuestionIndex 5 (submitAnswers answeredQ1))) \<and>
   isQuestionCompleted
     (setQuestions [Q2] (setCurrentQuestionIndex 5 (submitAnswers answeredQ1))) ''1''"
  using setQuestions_frame
          [of "[Q2]" "setCurrentQuestionIndex 5 (submitAnswers answeredQ1)" "''1''"]
  by (simp add: store_defs sample_defs string_defs)

subsection \<open>Answering\<close>

lemma answerEach_questions:
  "CompanyState.questions (answerEach calls s) = CompanyState.questions s"
  unfolding answerEach_def
  by (induction calls arbitrary: s) (auto simp: setAnswer_def Let_def)

lemma answerEach_completed:
  "\<forall>(qid, a, fs) \<in> set calls. trim a \<noteq> [] \<Longrightarrow>
   completedQuestions (answerEach calls s) =
     completedQuestions s |\<union>| fset_of_list (map fst calls)"
  unfolding answerEach_def
  by (induction calls arbitrary: s) (auto simp: setAnswer_def Let_def truthy_string_def)

lemma fcard_fset_of_list_distinct:
  "distinct xs \<Longrightarrow> fcard (fset_of_list xs) = length xs"
  by (simp add: fcard.rep_eq fset_of_list.rep_eq distinct_card)

lemma fset_of_list_cong: "set xs = set ys \<Longrightarrow> fset_of_list xs = fset_of_list ys"
  by (simp add: fset_inject [symmetric] fset_of_list.rep_eq)

text \<open>
  C1. For every question list of size N > 0 whose N ids are pairwise distinct, loaded into
  a store with an empty completed set, after \<^verbatim>\<open>setAnswer\<close> has been called for each of
  the question ids, in any order and any number of times, always with a text whose trim is
  non-empty, \<^verbatim>\<open>getProgress()\<close> is 100 and \<^verbatim>\<open>canSubmit()\<close> is true. (The answers map
  of the prior store plays no role.)
\<close>

theorem answer_all_complete:
  assumes "qs \<noteq> []"
    and "distinct (map Question.id qs)"
    and "completedQuestions s = {||}"
    and "set (map fst calls) = set (map Question.id qs)"
    and "\<forall>(qid, a, fs) \<in> set calls. trim a \<noteq> []"
  shows "getProgress (answerEach calls (setQuestions qs s)) = Finite 100 \<and>
         canSubmit (answerEach calls (setQuestions qs s))"
proof -
  let ?s' = "answerEach calls (setQuestions qs s)"
  have q: "CompanyState.questions ?s' = qs"
    by (simp add: answerEach_questions setQuestions_def)
  have "completedQuestions ?s' = {||} |\<union>| fset_of_list (map fst calls)"
    using assms(3) answerEach_completed [OF assms(5), of "setQuestions qs s"]
    by (simp add: setQuestions_def)
  also have "\<dots> = fset_of_list (map fst calls)"
    by simp
  also have "\<dots> = fset_of_list (map Question.id qs)"
    using assms(4) by (rule fset_of_list_cong)
  finally have c: "fcard (completedQuestions ?s') = length qs"
    using fcard_fset_of_list_distinct [OF assms(2)] by simp
  from assms(1) have n: "length qs \<noteq> 0"
    by simp
  show ?thesis
    using q c n by (simp add: getProgress_def canSubmit_def percent_of_all)
qed

text \<open>
  Two questions with ids 1 and 2 on the initial store: question 2 is answered first, with
  "n", then question 1 with "yes", then question 2 again with "no".
\<close>

theorem answer_all_complete_witness:
  "[Q1, Q2] \<noteq> [] \<and>
   distinct (map Question.id [Q1, Q2]) \<and>
   completedQuestions initialCompanyState = {||} \<and>
   set (map fst [(''2'', text_n, None :: File list option), (''1'', text_yes, None),
                 (''2'', text_no, None)])
     = set (map Question.id [Q1, Q2]) \<and>
   trim text_n \<noteq> [] \<and> trim text_yes \<noteq> [] \<and> trim text_no \<noteq> [] \<and>
   getProgress (answerEach [(''2'', text_n, None), (''1'', text_yes, None),
                            (''2'', text_no, None)]
                  (setQuestions [Q1, Q2] initialCompanyState)) = Finite 100 \<and>
   canSubmit (answerEach [(''2'', text_n, None), (''1'', text_yes, None),
                          (''2'', text_no, None)]
                (setQuestions [Q1, Q2] initialCompanyState))"
proof -
  let ?calls = "[(''2'', text_n, None :: File list option), (''1'', text_yes, None),
                 (''2'', text_no, None)]"
  have t: "trim text_n \<noteq> [] \<and> trim text_yes \<noteq> [] \<and> trim text_no \<noteq> []"
    by (simp add: string_defs)
  have h: "[Q1, Q2] \<noteq> []"
    "distinct (map Question.id [Q1, Q2])"
    "completedQuestions initialCompanyState = {||}"
    "set (map fst ?calls) = set (map Question.id [Q1, Q2])"
    by (auto simp add: sample_defs initialCompanyState_def)
  have a: "\<forall>(qid, a, fs) \<in> set ?calls. trim a \<noteq> []"
    using t by simp
  show ?thesis
    using h t answer_all_complete [OF h a] by simp
qed

text \<open>
  Without distinct ids the conclusion fails: a list of two questions that carry the same
  id 1, loaded into the initial store and answered one after the other with non-blank
  text, leaves one element in the completed set, so progress is 50 and submission is not
  allowed.
\<close>

theorem answer_all_same_id_counterexample:
  "[Q1, Q1_again] \<noteq> [] \<and>
   CompanyState.answers initialCompanyState = DAList.empty \<and>
   completedQuestions initialCompanyState = {||} \<and>
   map fst [(''1'', text_yes, None :: File list option), (''1'', text_no, None)]
     = map Question.id [Q1, Q1_again] \<and>
   trim text_yes \<noteq> [] \<and> trim text_no \<noteq> [] \<and>
   getProgress (answerEach [(''1'', text_yes, None), (''1'', text_no, None)]
                  (setQuestions [Q1, Q1_again] initialCompanyState)) = Finite 50 \<and>
   \<not> canSubmit (answerEach [(''1'', text_yes, None), (''1'', text_no, None)]
                  (setQuestions [Q1, Q1_again] initialCompanyState))"
  by (simp add: answerEach_def store_defs sample_defs string_defs fcard_eval percent_eval)

text \<open>
  C2. For every store state, \<^verbatim>\<open>setAnswer\<close> for a question id with a text whose trim is
  empty leaves that id un-marked, and with a text whose trim is non-empty leaves it marked
  as completed; the marks of all other ids are unchanged. If \<^verbatim>\<open>canSubmit()\<close> was true
  and the id was marked as completed, then after overwriting its answer with a text whose
  trim is empty \<^verbatim>\<open>canSubmit()\<close> is false.
\<close>

theorem setAnswer_completion:
  "(isQuestionCompleted (setAnswer qid a fs s) qid \<longleftrightarrow> trim a \<noteq> []) \<and>
   (k \<noteq> qid \<longrightarrow> isQuestionCompleted (setAnswer qid a fs s) k = isQuestionCompleted s k) \<and>
   (canSubmit s \<and> isQuestionCompleted s qid \<and> trim a = [] \<longrightarrow>
      \<not> canSubmit (setAnswer qid a fs s))"
proof (intro conjI impI)
  show "isQuestionCompleted (setAnswer qid a fs s) qid \<longleftrightarrow> trim a \<noteq> []"
    by (simp add: setAnswer_def isQuestionCompleted_def truthy_string_def Let_def)
next
  assume "k \<noteq> qid"
  then show "isQuestionCompleted (setAnswer qid a fs s) k = isQuestionCompleted s k"
    by (simp add: setAnswer_def isQuestionCompleted_def truthy_string_def Let_def)
next
  assume h: "canSubmit s \<and> isQuestionCompleted s qid \<and> trim a = []"
  then have m: "qid |\<in>| completedQuestions s"
    by (simp add: isQuestionCompleted_def)
  have "fcard (completedQuestions s |-| {|qid|}) < fcard (completedQuestions s)"
    using m by (rule fcard_fminus1_less)
  with h show "\<not> canSubmit (setAnswer qid a fs s)"
    by (simp add: setAnswer_def canSubmit_def truthy_string_def Let_def)
qed

text \<open>
  One question, answered "yes": submission is allowed. Overwriting the answer with a
  no-break space followed by a space (code units 00A0 and 0020), which trims to the empty
  string, un-marks the question and withdraws it.
\<close>

theorem setAnswer_completion_witness:
  "''2'' \<noteq> ''1'' \<and>
   canSubmit answeredQ1 \<and> isQuestionCompleted answeredQ1 ''1'' \<and>
   trim [0x00A0, 0x0020] = [] \<and>
   \<not> isQuestionCompleted (setAnswer ''1'' [0x00A0, 0x0020] None answeredQ1) ''1'' \<and>
   isQuestionCompleted (setAnswer ''1'' [0x00A0, 0x0020] None answeredQ1) ''2''
     = isQuestionCompleted answeredQ1 ''2'' \<and>
   \<not> canSubmit (setAnswer ''1'' [0x00A0, 0x0020] None answeredQ1)"
proof -
  have h: "canSubmit answeredQ1 \<and> isQuestionCompleted answeredQ1 ''1'' \<and>
           trim [0x00A0, 0x0020] = []"
    by (simp add: store_defs sample_defs string_defs fcard_eval)
  have d: "''2'' \<noteq> ''1''"
    by simp
  show ?thesis
    using h d setAnswer_completion [of "''1''" "[0x00A0, 0x0020]" None answeredQ1 "''2''"]
    by simp
qed

text \<open>
  Overwriting an answer whose id is not marked as completed does not withdraw submission:
  with question 1 loaded and answered, and a blank answer recorded for id 2,
  \<^verbatim>\<open>canSubmit()\<close> is true, and it is still true after the answer of id 2 is overwritten
  with the empty string.
\<close>

theorem overwrite_unmarked_counterexample:
  "DAList.lookup (CompanyState.answers blankAnswered) ''2'' \<noteq> None \<and>
   trim [] = [] \<and>
   canSubmit blankAnswered \<and>
   canSubmit (setAnswer ''2'' [] None blankAnswered)"
  by (simp add: store_defs sample_defs string_defs fcard_eval DAList.lookup_update)

subsection \<open>Submission\<close>

lemma dispatch_keeps_submitted:
  "act \<noteq> ResetQuestionnaire \<Longrightarrow> isSubmitted s \<Longrightarrow> isSubmitted (dispatch act s)"
  by (cases act) (simp_all add: store_defs Let_def)

lemma run_keeps_submitted:
  "ResetQuestionnaire \<notin> set acts \<Longrightarrow> isSubmitted s \<Longrightarrow> isSubmitted (run acts s)"
  unfolding run_def
proof (induction acts arbitrary: s)
  case Nil
  then show ?case by simp
next
  case (Cons act acts)
  from Cons.prems have "act \<noteq> ResetQuestionnaire"
    by auto
  then have "isSubmitted (dispatch act s)"
    using Cons.prems(2) by (rule dispatch_keeps_submitted)
  moreover from Cons.prems have "ResetQuestionnaire \<notin> set acts"
    by simp
  ultimately show ?case
    using Cons.IH by simp
qed

lemma run_append: "run (xs @ ys) s = run ys (run xs s)"
  by (simp add: run_def)

text \<open>
  C7. Once \<^verbatim>\<open>submitAnswers\<close> has set the submitted flag, the flag is still true after
  every sequence of store actions that does not contain \<^verbatim>\<open>resetQuestionnaire\<close>;
  \<^verbatim>\<open>resetQuestionnaire\<close> is the one action that sets it back to false, after any
  sequence of actions.
\<close>

theorem submitted_until_reset:
  "(ResetQuestionnaire \<notin> set acts \<longrightarrow> isSubmitted (run acts (submitAnswers s))) \<and>
   \<not> isSubmitted (run (acts @ [ResetQuestionnaire]) (submitAnswers s))"
proof
  show "ResetQuestionnaire \<notin> set acts \<longrightarrow> isSubmitted (run acts (submitAnswers s))"
    by (simp add: run_keeps_submitted submitAnswers_def)
next
  show "\<not> isSubmitted (run (acts @ [ResetQuestionnaire]) (submitAnswers s))"
    by (simp add: run_append) (simp add: run_def resetQuestionnaire_def)
qed

text \<open>A session that uses every action except the reset, started on a submitted store.\<close>

theorem submitted_until_reset_witness:
  "ResetQuestionnaire \<notin> set sampleSession \<and>
   isSubmitted (run sampleSession (submitAnswers initialCompanyState)) \<and>
   \<not> isSubmitted (run (sampleSession @ [ResetQuestionnaire]) (submitAnswers initialCompanyState))"
proof -
  have h: "ResetQuestionnaire \<notin> set sampleSession"
    by (simp add: sampleSession_def)
  show ?thesis
    using h submitted_until_reset [of sampleSession initialCompanyState] by simp
qed

text \<open>
  An un-submit exists: on the initial store, \<^verbatim>\<open>submitAnswers\<close> sets the flag and a
  following \<^verbatim>\<open>resetQuestionnaire\<close> clears it.
\<close>

theorem reset_unsubmits_counterexample:
  "isSubmitted (submitAnswers initialCompanyState) \<and>
   \<not> isSubmitted (run [ResetQuestionnaire] (submitAnswers initialCompanyState))"
  by (simp add: run_def store_defs)

section \<open>Properties of the auditor store\<close>

lemmas auditor_defs =
  setSelectedCompany_def setEvaluation_def setProvisionEvaluation_def
  auditor_setQuestions_def initialAuditorState_def
  getEvaluationForQuestion_def getProvisionEvaluation_def

lemmas auditor_sample_defs = reviewedQ1Q2_def reviewedOneOfThree_def sampleEvaluation_def

lemma Object_keys_empty: "Object_keys DAList.empty = []"
  by (simp add: Object_keys_def DAList.empty.rep_eq)

lemma two_entries:
  "k1 \<noteq> k2 \<Longrightarrow>
   DAList.impl_of (DAList.update k2 v2 (DAList.update k1 v1 DAList.empty))
     = [(k1, v1), (k2, v2)]"
  by (simp add: DAList.update.rep_eq DAList.empty.rep_eq)

lemma three_entries:
  "k1 \<noteq> k2 \<Longrightarrow> k1 \<noteq> k3 \<Longrightarrow> k2 \<noteq> k3 \<Longrightarrow>
   DAList.impl_of
     (DAList.update k3 v3 (DAList.update k2 v2 (DAList.update k1 v1 DAList.empty)))
     = [(k1, v1), (k2, v2), (k3, v3)]"
  by (simp add: DAList.update.rep_eq DAList.empty.rep_eq)

subsection \<open>Selecting a company\<close>

text \<open>
  C3. \<^verbatim>\<open>setSelectedCompany\<close> clears the evaluation state of the previous company: for
  every prior state of the auditor store, after the call the evaluations map and the
  provision-evaluations map are empty and the current provision id is \<^verbatim>\<open>null\<close>. No
  judgment of the prior state can be read back: the read of a question id or of a
  provision id never returns an entry of a map, and no question counts as evaluated.
\<close>

theorem setSelectedCompany_clears:
  "evaluations (setSelectedCompany c s) = DAList.empty \<and>
   provisionEvaluations (setSelectedCompany c s) = DAList.empty \<and>
   currentProvisionId (setSelectedCompany c s) = None \<and>
   selectedCompany (setSelectedCompany c s) = c \<and>
   getEvaluationForQuestion (setSelectedCompany c s) qid \<noteq> Some (Own e) \<and>
   getProvisionEvaluation (setSelectedCompany c s) pid \<noteq> Some (Own pe) \<and>
   evaluated (getEvaluationStats (setSelectedCompany c s)) = 0"
  by (simp add: auditor_defs or_null_def get_property_def getEvaluationStats_def
      Object_keys_empty Let_def)

text \<open>
  A store with a pass recorded for question 1 and a fail for question 2: the evaluation of
  question 1 is read before the company is switched, and \<^verbatim>\<open>null\<close> is read afterwards.
  What the read of the id "constructor" returns afterwards is the member inherited from
  \<^verbatim>\<open>Object.prototype\<close>, not an evaluation.
\<close>

theorem setSelectedCompany_clears_witness:
  "getEvaluationForQuestion reviewedQ1Q2 ''1'' = Some (Own (sampleEvaluation ''1'' Pass)) \<and>
   evaluations (setSelectedCompany None reviewedQ1Q2) = DAList.empty \<and>
   provisionEvaluations (setSelectedCompany None reviewedQ1Q2) = DAList.empty \<and>
   currentProvisionId (setSelectedCompany None reviewedQ1Q2) = None \<and>
   getEvaluationForQuestion (setSelectedCompany None reviewedQ1Q2) ''1'' = None \<and>
   getEvaluationForQuestion (setSelectedCompany None reviewedQ1Q2) ''constructor''
     = Some (Inherited ''constructor'') \<and>
   getEvaluationForQuestion (setSelectedCompany None reviewedQ1Q2) ''1''
     \<noteq> Some (Own (sampleEvaluation ''1'' Pass))"
proof -
  have a: "getEvaluationForQuestion reviewedQ1Q2 ''1''
             = Some (Own (sampleEvaluation ''1'' Pass))"
    by (simp add: reviewedQ1Q2_def auditor_defs or_null_def get_property_def
        DAList.lookup_update)
  have b: "getEvaluationForQuestion (setSelectedCompany None reviewedQ1Q2) ''1'' = None"
    by (simp add: auditor_defs or_null_def get_property_def Object_prototype_members_def)
  have c: "getEvaluationForQuestion (setSelectedCompany None reviewedQ1Q2) ''constructor''
             = Some (Inherited ''constructor'')"
    by (simp add: auditor_defs or_null_def get_property_def Object_prototype_members_def)
  show ?thesis
    using a b c
      setSelectedCompany_clears
        [of None reviewedQ1Q2 "''1''" "sampleEvaluation ''1'' Pass"]
    by simp
qed

subsection \<open>Statistics\<close>

lemma length_alist_card_dom:
  "distinct (map fst xs) \<Longrightarrow> length xs = card (dom (map_of xs))"
proof -
  assume "distinct (map fst xs)"
  then have "card (set (map fst xs)) = length (map fst xs)"
    by (rule distinct_card)
  then show ?thesis
    by (simp add: dom_map_of_conv_image_fst)
qed

lemma filter_values_card:
  assumes "distinct (map fst xs)"
  shows "length (filter P (map snd xs)) = card {k. \<exists>v. map_of xs k = Some v \<and> P v}"
proof -
  let ?ys = "filter (P \<circ> snd) xs"
  have d: "distinct (map fst ?ys)"
    using assms by (rule distinct_map_fst_filter)
  have "{k. \<exists>v. map_of xs k = Some v \<and> P v} = fst ` set ?ys"
    using assms by (force simp: image_iff)
  then have "card {k. \<exists>v. map_of xs k = Some v \<and> P v} = card (set (map fst ?ys))"
    by simp
  also have "\<dots> = length (map fst ?ys)"
    using d by (rule distinct_card)
  also have "\<dots> = length (filter P (map snd xs))"
    by (simp add: filter_map)
  finally show ?thesis by simp
qed

lemma Object_keys_card:
  "length (Object_keys r) = card (dom (DAList.lookup r))"
  using length_alist_card_dom [of "DAList.impl_of r"]
  by (simp add: Object_keys_def DAList.lookup.rep_eq)

lemma Object_values_filter_card:
  "length (filter P (Object_values r)) = card {k. \<exists>v. DAList.lookup r k = Some v \<and> P v}"
  using filter_values_card [of "DAList.impl_of r" P]
  by (simp add: Object_values_def DAList.lookup.rep_eq)

lemma stats_counts:
  "total (getEvaluationStats s) = length (AuditorState.questions s) \<and>
   evaluated (getEvaluationStats s) = card (dom (DAList.lookup (evaluations s))) \<and>
   passed (getEvaluationStats s) =
     card {qid. \<exists>e. DAList.lookup (evaluations s) qid = Some e \<and> result e = Pass} \<and>
   failed (getEvaluationStats s) =
     card {qid. \<exists>e. DAList.lookup (evaluations s) qid = Some e \<and> result e = Fail} \<and>
   pending (getEvaluationStats s) =
     int (total (getEvaluationStats s)) - int (evaluated (getEvaluationStats s))"
  by (simp add: getEvaluationStats_def Let_def Object_keys_card Object_values_filter_card)

lemma stats_scenario:
  assumes "Question.id q1 \<noteq> Question.id q2" "result e1 = Pass" "result e2 = Fail"
  shows "getEvaluationStats
            (setEvaluation (Question.id q2) e2
               (setEvaluation (Question.id q1) e1
                  (auditor_setQuestions [q1, q2] (setSelectedCompany c s)))) =
          \<lparr>total = 2, evaluated = 2, passed = 1, failed = 1, pending = 0,
           completionPercentage = Finite 100, EvaluationStats.passPercentage = Finite 50\<rparr>"
  using assms
  by (simp add: getEvaluationStats_def auditor_defs Object_keys_def Object_values_def
      two_entries percent_eval)

text \<open>
  C4. In \<^verbatim>\<open>getEvaluationStats\<close> the pass percentage is computed over the evaluated
  questions, not over all questions. With E the number of entries of the evaluations map
  and P the number of its entries with result pass: when E is 0 the pass percentage is
  exactly 0; when E is positive it is the number \<^verbatim>\<open>(P / E) * 100\<close> of JavaScript's
  arithmetic; it is never \<^verbatim>\<open>NaN\<close>; and it does not depend on the list of questions.
\<close>

theorem passPercentage_guarded:
  "(card (dom (DAList.lookup (evaluations s))) = 0 \<longrightarrow>
      EvaluationStats.passPercentage (getEvaluationStats s) = Finite 0) \<and>
   (card (dom (DAList.lookup (evaluations s))) > 0 \<longrightarrow>
      EvaluationStats.passPercentage (getEvaluationStats s) =
        js_mult
          (js_div
             (card {qid. \<exists>e. DAList.lookup (evaluations s) qid = Some e \<and> result e = Pass})
             (card (dom (DAList.lookup (evaluations s)))))
          100) \<and>
   EvaluationStats.passPercentage (getEvaluationStats s) \<noteq> NaN \<and>
   EvaluationStats.passPercentage (getEvaluationStats (auditor_setQuestions qs s)) =
     EvaluationStats.passPercentage (getEvaluationStats s)"
proof (intro conjI impI)
  assume "card (dom (DAList.lookup (evaluations s))) = 0"
  then show "EvaluationStats.passPercentage (getEvaluationStats s) = Finite 0"
    by (simp add: getEvaluationStats_def Let_def Object_keys_card)
next
  assume "card (dom (DAList.lookup (evaluations s))) > 0"
  then show "EvaluationStats.passPercentage (getEvaluationStats s) =
        js_mult
          (js_div
             (card {qid. \<exists>e. DAList.lookup (evaluations s) qid = Some e \<and> result e = Pass})
             (card (dom (DAList.lookup (evaluations s)))))
          100"
    by (simp add: getEvaluationStats_def Let_def Object_keys_card Object_values_filter_card)
next
  show "EvaluationStats.passPercentage (getEvaluationStats s) \<noteq> NaN"
    by (simp add: getEvaluationStats_def Let_def js_div_not_NaN js_mult_not_NaN)
next
  show "EvaluationStats.passPercentage (getEvaluationStats (auditor_setQuestions qs s)) =
     EvaluationStats.passPercentage (getEvaluationStats s)"
    by (simp add: getEvaluationStats_def Let_def auditor_setQuestions_def)
qed

text \<open>
  Three stores: nothing evaluated, with two questions loaded; one pass and one fail, whose
  pass percentage is 50; and one pass and two fails with only two questions loaded, whose
  pass percentage is the double 33.33333333333333 that \<^verbatim>\<open>(1 / 3) * 100\<close> evaluates to.
\<close>

theorem passPercentage_guarded_witness:
  "card (dom (DAList.lookup
          (evaluations (auditor_setQuestions [Q1, Q2] initialAuditorState)))) = 0 \<and>
   EvaluationStats.passPercentage
     (getEvaluationStats (auditor_setQuestions [Q1, Q2] initialAuditorState)) = Finite 0 \<and>
   card (dom (DAList.lookup (evaluations reviewedQ1Q2))) = 2 \<and>
   card {qid. \<exists>e. DAList.lookup (evaluations reviewedQ1Q2) qid = Some e \<and> result e = Pass}
     = 1 \<and>
   EvaluationStats.passPercentage (getEvaluationStats reviewedQ1Q2) = Finite 50 \<and>
   card (dom (DAList.lookup (evaluations reviewedOneOfThree))) = 3 \<and>
   card {qid. \<exists>e. DAList.lookup (evaluations reviewedOneOfThree) qid = Some e \<and>
                  result e = Pass} = 1 \<and>
   EvaluationStats.passPercentage (getEvaluationStats reviewedOneOfThree)
     = Finite (2345624805922133 / 70368744177664)"
proof -
  have a: "card (dom (DAList.lookup
             (evaluations (auditor_setQuestions [Q1, Q2] initialAuditorState)))) = 0"
    by (simp add: Object_keys_card [symmetric] Object_keys_empty auditor_defs)
  have b: "card (dom (DAList.lookup (evaluations reviewedQ1Q2))) = 2"
    by (simp add: Object_keys_card [symmetric] Object_keys_def auditor_defs
        auditor_sample_defs two_entries)
  have b': "card {qid. \<exists>e. DAList.lookup (evaluations reviewedQ1Q2) qid = Some e \<and>
                          result e = Pass} = 1"
    by (simp add: Object_values_filter_card [symmetric] Object_values_def auditor_defs
        auditor_sample_defs two_entries)
  have c: "card (dom (DAList.lookup (evaluations reviewedOneOfThree))) = 3"
    by (simp add: Object_keys_card [symmetric] Object_keys_def auditor_defs
        auditor_sample_defs three_entries)
  have c': "card {qid. \<exists>e. DAList.lookup (evaluations reviewedOneOfThree) qid = Some e \<and>
                          result e = Pass} = 1"
    by (simp add: Object_values_filter_card [symmetric] Object_values_def auditor_defs
        auditor_sample_defs three_entries)
  show ?thesis
    using a b b' c c'
      passPercentage_guarded [of "auditor_setQuestions [Q1, Q2] initialAuditorState"]
      passPercentage_guarded [of reviewedQ1Q2]
      passPercentage_guarded [of reviewedOneOfThree]
    by (simp add: percent_eval)
qed

text \<open>
  C5. For every loaded question list and evaluations map, \<^verbatim>\<open>getEvaluationStats\<close> returns
  total = the number of questions, evaluated = the number of evaluation entries, passed =
  the number of entries with result pass, failed = the number of entries with result fail,
  and pending = total - evaluated. In particular, with two questions of which the first is
  evaluated pass and the second is evaluated fail, it returns total 2, evaluated 2,
  passed 1, failed 1, pending 0 and pass percentage 50.
\<close>

theorem getEvaluationStats_counts:
  "total (getEvaluationStats s) = length (AuditorState.questions s) \<and>
   evaluated (getEvaluationStats s) = card (dom (DAList.lookup (evaluations s))) \<and>
   passed (getEvaluationStats s) =
     card {qid. \<exists>e. DAList.lookup (evaluations s) qid = Some e \<and> result e = Pass} \<and>
   failed (getEvaluationStats s) =
     card {qid. \<exists>e. DAList.lookup (evaluations s) qid = Some e \<and> result e = Fail} \<and>
   pending (getEvaluationStats s) =
     int (total (getEvaluationStats s)) - int (evaluated (getEvaluationStats s)) \<and>
   (Question.id q1 \<noteq> Question.id q2 \<and> result e1 = Pass \<and> result e2 = Fail \<longrightarrow>
      getEvaluationStats
        (setEvaluation (Question.id q2) e2
           (setEvaluation (Question.id q1) e1
              (auditor_setQuestions [q1, q2] (setSelectedCompany c s0)))) =
      \<lparr>total = 2, evaluated = 2, passed = 1, failed = 1, pending = 0,
       completionPercentage = Finite 100, EvaluationStats.passPercentage = Finite 50\<rparr>)"
  using stats_counts [of s] stats_scenario [of q1 q2 e1 e2 c s0] by blast

text \<open>
  Questions 1 and 2, a pass recorded for question 1 and a fail for question 2, starting
  from the initial store.
\<close>

theorem getEvaluationStats_counts_witness:
  "Question.id Q1 \<noteq> Question.id Q2 \<and>
   result (sampleEvaluation ''1'' Pass) = Pass \<and>
   result (sampleEvaluation ''2'' Fail) = Fail \<and>
   getEvaluationStats reviewedQ1Q2 =
     \<lparr>total = 2, evaluated = 2, passed = 1, failed = 1, pending = 0,
      completionPercentage = Finite 100, EvaluationStats.passPercentage = Finite 50\<rparr> \<and>
   card (dom (DAList.lookup (evaluations reviewedQ1Q2))) = 2"
proof -
  have h: "Question.id Q1 \<noteq> Question.id Q2 \<and>
           result (sampleEvaluation ''1'' Pass) = Pass \<and>
           result (sampleEvaluation ''2'' Fail) = Fail"
    by (simp add: sample_defs sampleEvaluation_def)
  have i: "Question.id Q1 = ''1'' \<and> Question.id Q2 = ''2''"
    by (simp add: sample_defs)
  have "getEvaluationStats reviewedQ1Q2 =
     \<lparr>total = 2, evaluated = 2, passed = 1, failed = 1, pending = 0,
      completionPercentage = Finite 100, EvaluationStats.passPercentage = Finite 50\<rparr>"
    using h i
      getEvaluationStats_counts
        [of reviewedQ1Q2 Q1 Q2 "sampleEvaluation ''1'' Pass" "sampleEvaluation ''2'' Fail"
            None initialAuditorState]
    by (simp add: reviewedQ1Q2_def)
  moreover have "evaluated (getEvaluationStats reviewedQ1Q2)
                   = card (dom (DAList.lookup (evaluations reviewedQ1Q2)))"
    using getEvaluationStats_counts
        [of reviewedQ1Q2 Q1 Q2 "sampleEvaluation ''1'' Pass" "sampleEvaluation ''2'' Fail"
            None initialAuditorState]
    by blast
  ultimately show ?thesis
    using h by simp
qed

section \<open>Properties of the organizations API\<close>

lemma slice_from:
  "0 \<le> k \<Longrightarrow> k < int (length xs) \<Longrightarrow> slice xs k None = drop (nat k) xs"
  by (simp add: slice_def slice_index_def Let_def)

lemma slice_upto: "0 \<le> k \<Longrightarrow> slice xs 0 (Some k) = take (nat k) xs"
  by (auto simp: slice_def slice_index_def Let_def min_def)

lemma applyPagination_nonneg:
  assumes "\<forall>k. options_offset options = Some k \<longrightarrow> 0 \<le> k"
      and "\<forall>k. options_limit options = Some k \<longrightarrow> 0 \<le> k"
  shows "applyPagination items options =
     (let off = (case options_offset options of None \<Rightarrow> 0 | Some k \<Rightarrow> nat k);
          lmt = (case options_limit options of None \<Rightarrow> 0 | Some k \<Rightarrow> nat k);
          skipped = (if off < length items then drop off items else items)
      in if lmt = 0 then skipped else take lmt skipped)"
proof -
  let ?skipped = "case options_offset options of
                    None \<Rightarrow> items
                  | Some off \<Rightarrow>
                      if truthy_number off \<and> off < int (length items)
                      then slice items off None else items"
  have a: "?skipped =
     (let off = (case options_offset options of None \<Rightarrow> 0 | Some k \<Rightarrow> nat k)
      in if off < length items then drop off items else items)"
    using assms(1)
    by (cases "options_offset options") (auto simp: truthy_number_def slice_from Let_def)
  have b: "(case options_limit options of
              None \<Rightarrow> ys
            | Some lmt \<Rightarrow> if truthy_number lmt then slice ys 0 (Some lmt) else ys) =
     (let lmt = (case options_limit options of None \<Rightarrow> 0 | Some k \<Rightarrow> nat k)
      in if lmt = 0 then ys else take lmt ys)" for ys :: "'a list"
    using assms(2)
    by (cases "options_limit options") (auto simp: truthy_number_def slice_upto Let_def)
  show ?thesis
    unfolding applyPagination_def Let_def
    using a b [of ?skipped] by (simp add: Let_def)
qed

lemma length_MOCK_ORGANIZATIONS: "length MOCK_ORGANIZATIONS = 5"
  by (simp add: MOCK_ORGANIZATIONS_def)

text \<open>
  C9. When the request for the organizations fails, \<^verbatim>\<open>getAll\<close> returns the fallback
  sample set paginated as follows, for every non-negative limit and offset: the offset is
  applied first, dropping that many leading organizations when it is smaller than the
  number of sample organizations and being ignored otherwise (an absent offset is 0); then
  the limit is applied, keeping at most that many organizations when it is not 0 and
  being ignored when it is 0 or absent.
\<close>

theorem getAll_fallback:
  assumes "\<forall>k. options_offset options = Some k \<longrightarrow> 0 \<le> k"
      and "\<forall>k. options_limit options = Some k \<longrightarrow> 0 \<le> k"
  shows "getAll (Inl e) options =
     (let off = (case options_offset options of None \<Rightarrow> 0 | Some k \<Rightarrow> nat k);
          lmt = (case options_limit options of None \<Rightarrow> 0 | Some k \<Rightarrow> nat k);
          skipped = (if off < length MOCK_ORGANIZATIONS then drop off MOCK_ORGANIZATIONS
                     else MOCK_ORGANIZATIONS)
      in if lmt = 0 then skipped else take lmt skipped)"
  using applyPagination_nonneg [OF assms, of MOCK_ORGANIZATIONS]
  by (simp add: getAll_def)

text \<open>Limit 2 and offset 1 on a failed request: the second and third organization.\<close>

theorem getAll_fallback_witness:
  "options_offset (Some \<lparr>limit = Some 2, offset = Some 1\<rparr>) = Some 1 \<and> (0 :: int) \<le> 1 \<and>
   options_limit (Some \<lparr>limit = Some 2, offset = Some 1\<rparr>) = Some 2 \<and> (0 :: int) \<le> 2 \<and>
   map Organization.id (getAll (Inl NetworkError) (Some \<lparr>limit = Some 2, offset = Some 1\<rparr>))
     = [''2'', ''3'']"
proof -
  let ?o = "Some \<lparr>limit = Some 2, offset = Some 1\<rparr>"
  have h1: "\<forall>k. options_offset ?o = Some k \<longrightarrow> 0 \<le> k"
    by (simp add: options_offset_def)
  have h2: "\<forall>k. options_limit ?o = Some k \<longrightarrow> 0 \<le> k"
    by (simp add: options_limit_def)
  have "getAll (Inl NetworkError) ?o = take 2 (drop 1 MOCK_ORGANIZATIONS)"
    using getAll_fallback [OF h1 h2, of NetworkError]
    by (simp add: options_offset_def options_limit_def length_MOCK_ORGANIZATIONS)
  then have "map Organization.id (getAll (Inl NetworkError) ?o) = [''2'', ''3'']"
    by (simp add: MOCK_ORGANIZATIONS_def)
  then show ?thesis
    by (simp add: options_offset_def options_limit_def)
qed

text \<open>
  An offset that is not smaller than the number of sample organizations is not applied:
  with offset 5 and limit 2 the failed request returns the first two organizations, where
  applying the offset and then the limit gives the empty list.
\<close>

theorem getAll_offset_past_end_counterexample:
  "getAll (Inl NetworkError) (Some \<lparr>limit = Some 2, offset = Some 5\<rparr>)
     = take 2 MOCK_ORGANIZATIONS \<and>
   spec_paginate MOCK_ORGANIZATIONS (Some \<lparr>limit = Some 2, offset = Some 5\<rparr>) = [] \<and>
   getAll (Inl NetworkError) (Some \<lparr>limit = Some 2, offset = Some 5\<rparr>)
     \<noteq> spec_paginate MOCK_ORGANIZATIONS (Some \<lparr>limit = Some 2, offset = Some 5\<rparr>)"
  by (simp add: getAll_def applyPagination_def slice_def slice_index_def truthy_number_def
      options_offset_def options_limit_def spec_paginate_def length_MOCK_ORGANIZATIONS)
    (simp add: MOCK_ORGANIZATIONS_def)

end
